theory Spec2Isabelle
  imports Main "HOL-Library.Sublist" "HOL-Library.AList"
begin

section \<open>JavaScript strings and values used by \<open>Index/js/new.js\<close>\<close>

text \<open>
  A JavaScript string is modelled as a \<open>string\<close>, one \<open>char\<close> per code unit. Every string
  operation the script uses (\<open>indexOf\<close>, \<open>substr\<close>, \<open>split\<close>, \<open>replace\<close>, \<open>+\<close>, the
  regular expression \<open>/^[a-zA-Z]+$/\<close>) works code unit by code unit.

  A value that may be \<open>undefined\<close> (a property that an object does not have, an array index
  out of range, an attribute that an element does not carry) is an \<open>option\<close>, \<open>None\<close> being
  \<open>undefined\<close>.
\<close>

text \<open>\<open>ToString\<close>, as string concatenation and \<open>RegExp.prototype.test\<close> apply it to
  their operand: \<open>undefined\<close> becomes the text \<open>undefined\<close>.\<close>

definition ToString :: "string option \<Rightarrow> string" where
  "ToString v = (case v of None \<Rightarrow> ''undefined'' | Some s \<Rightarrow> s)"

text \<open>\<open>s.indexOf(pat)\<close>: the index of the first occurrence of \<open>pat\<close> in \<open>s\<close>, or \<open>-1\<close>.\<close>

fun indexOf :: "string \<Rightarrow> string \<Rightarrow> int" where
  "indexOf [] pat = (if pat = [] then 0 else - 1)"
| "indexOf (c # cs) pat =
     (if prefix pat (c # cs) then 0
      else (let r = indexOf cs pat in if r < 0 then - 1 else r + 1))"

text \<open>\<open>s.substr(start)\<close> with no length: a negative \<open>start\<close> counts from the end of the
  string, and a \<open>start\<close> beyond the end gives the empty string.\<close>

definition substr :: "string \<Rightarrow> int \<Rightarrow> string" where
  "substr s start =
     (if start < 0 then drop (nat (max (int (length s) + start) 0)) s
      else drop (nat start) s)"

text \<open>\<open>s.split(sep)\<close> for a separator of one code unit: the fields between the separators,
  so that the empty string has the one field \<open>""\<close>.\<close>

fun split_str :: "string \<Rightarrow> char \<Rightarrow> string list" where
  "split_str [] sep = [[]]"
| "split_str (c # cs) sep =
     (if c = sep then [] # split_str cs sep
      else (case split_str cs sep of
              [] \<Rightarrow> [[c]]
            | f # fs \<Rightarrow> (c # f) # fs))"

text \<open>\<open>xs[i]\<close> on an array: \<open>undefined\<close> out of range.\<close>

definition at_index :: "'a list \<Rightarrow> nat \<Rightarrow> 'a option" where
  "at_index xs i = (if i < length xs then Some (xs ! i) else None)"

text \<open>\<open>s.replace(pat, rep)\<close> with a string pattern: only the first occurrence of \<open>pat\<close> is
  replaced. The two replacement texts of the script contain no \<open>$\<close>, so no replacement
  pattern is expanded.\<close>

fun replace_str :: "string \<Rightarrow> string \<Rightarrow> string \<Rightarrow> string" where
  "replace_str [] pat rep = (if pat = [] then rep else [])"
| "replace_str (c # cs) pat rep =
     (if prefix pat (c # cs) then rep @ drop (length pat) (c # cs)
      else c # replace_str cs pat rep)"

text \<open>\<open>/^[a-zA-Z]+$/.test(v)\<close>: the operand is converted by \<open>ToString\<close>; the expression has
  no \<open>m\<close> flag, so \<open>^\<close> and \<open>$\<close> are the two ends of the text.\<close>

definition is_letter :: "char \<Rightarrow> bool" where
  "is_letter c =
     (let n = (of_char c :: nat) in (97 \<le> n \<and> n \<le> 122) \<or> (65 \<le> n \<and> n \<le> 90))"

definition letters_only :: "string \<Rightarrow> bool" where
  "letters_only s = (s \<noteq> [] \<and> list_all is_letter s)"

definition test_letters :: "string option \<Rightarrow> bool" where
  "test_letters v = letters_only (ToString v)"

section \<open>The manage link of a post (\<open>callbacks.postCompleted\<close>, lines 113-114)\<close>

definition manageURL :: "string \<Rightarrow> string" where
  "manageURL privlyDataURL =
     replace_str (replace_str privlyDataURL ''format=json'' ''format=html'') ''.json'' ''.html''"

section \<open>The page and its collaborators\<close>

text \<open>
  The script works on the regions of the page that it names by identifier or class
  (\<open>#messages\<close>, \<open>#posts\<close>, \<open>#table_col\<close>, \<open>#iframe_col\<close>, \<open>.privly_iframe\<close>,
  \<open>#privly_iframe_title\<close>, \<open>#privly_iframe_meta\<close>, \<open>#message_link_button\<close>) and on
  the services \<open>privlyNetworkService\<close>, \<open>privlyParameters\<close> and \<open>privlyExtension\<close>.
  What the script passes to a service is recorded in the page state.
\<close>

datatype content = Html string | Text string

text \<open>An element built by \<open>document.createElement\<close>: its attributes, the \<open>style\<close>
  attribute among them, in the order they were first set.\<close>

record element =
  tagName :: string
  attributes :: "(string \<times> string) list"

definition createElement :: "string \<Rightarrow> element" where
  "createElement t = \<lparr>tagName = t, attributes = []\<rparr>"

definition setAttribute :: "string \<Rightarrow> string \<Rightarrow> element \<Rightarrow> element" where
  "setAttribute k v el = el\<lparr>attributes := AList.update k v (attributes el)\<rparr>"

definition getAttribute :: "string \<Rightarrow> element \<Rightarrow> string option" where
  "getAttribute k el = map_of (attributes el) k"

text \<open>The style object of an element. The browser reads the declarations of the inline
  style from the text of the \<open>style\<close> attribute; an assignment that it accepts to a property
  of the style object sets that declaration, in place when the property is there already,
  and rewrites the attribute to the serialisation of the declarations
  (\<open>property: value;\<close>, a space between two declarations). \<open>parse_style\<close> reads a text like
  the one of line 149, declarations \<open>property: value\<close> separated by semicolons; which
  properties and values the browser knows is not modelled here.\<close>

definition trim :: "string \<Rightarrow> string" where
  "trim s = rev (dropWhile (\<lambda>c. c = CHR '' '') (rev (dropWhile (\<lambda>c. c = CHR '' '') s)))"

definition style_declaration :: "string \<Rightarrow> (string \<times> string) option" where
  "style_declaration d =
     (if CHR '':'' \<in> set d then
        (let p = trim (takeWhile (\<lambda>c. c \<noteq> CHR '':'') d);
             v = trim (drop 1 (dropWhile (\<lambda>c. c \<noteq> CHR '':'') d))
         in if p = [] \<or> v = [] then None else Some (p, v))
      else None)"

definition parse_style :: "string \<Rightarrow> (string \<times> string) list" where
  "parse_style t =
     fold (\<lambda>d ds. case style_declaration d of None \<Rightarrow> ds | Some (p, v) \<Rightarrow> AList.update p v ds)
       (split_str t CHR '';'') []"

fun style_text :: "(string \<times> string) list \<Rightarrow> string" where
  "style_text [] = []"
| "style_text [(p, v)] = p @ '': '' @ v @ '';''"
| "style_text ((p, v) # d # ds) = p @ '': '' @ v @ ''; '' @ style_text (d # ds)"

definition set_style_property :: "string \<Rightarrow> string \<Rightarrow> element \<Rightarrow> element" where
  "set_style_property p v el =
     setAttribute ''style''
       (style_text
          (AList.update p v
             (parse_style (case getAttribute ''style'' el of None \<Rightarrow> [] | Some t \<Rightarrow> t))))
       el"

text \<open>A post record of the content server, and the body of a response: an array of post
  records, an object that has no \<open>length\<close> (such as \<open>{}\<close>), or \<open>null\<close>.\<close>

record post =
  privly_URL :: string
  created_at :: string
  burn_after_date :: string
  updated_at :: string
  privly_application :: string
  public :: bool

datatype json_body = JsonArray "post list" | JsonObject | JsonNull

record response =
  json :: json_body

datatype cell = Markup string | Flag bool

text \<open>The data of a window message: a string, or a value that has no \<open>split\<close> method.\<close>

datatype message_data = StringData string | OtherData

record message =
  origin :: string
  data :: message_data

datatype error = TypeError

datatype completion = Normal | Throw error

text \<open>The members of the \<open>callbacks\<close> object, as values that can be handed to a service.\<close>

datatype callback =
  PendingLogin | LoginFailure | PendingPost | PostSubmit | CreateError | PostCompleted

text \<open>What the collaborators answer. \<open>parameterStringToHash\<close> returns an object whose
  properties are strings; reading a property that it does not have gives \<open>undefined\<close>.
  \<open>accepts_height\<close> is the browser's judgement on a text assigned to \<open>style.height\<close>: the
  style object takes a text that is a value of the \<open>height\<close> property, such as a length
  \<open>240px\<close>, and ignores the assignment of any other text.\<close>

record env =
  parameterStringToHash :: "string \<Rightarrow> (string \<rightharpoonup> string)"
  contentServerDomain :: string
  platformName :: string
  location_origin :: string
  accepts_height :: "string \<Rightarrow> bool"

text \<open>Modelled from the spec: the markup of the page (the \<open>Index\<close> application's HTML,
  which is not among the sources). Each region the script names is present once; there is
  one preview container (the element of class \<open>privly_iframe\<close>), and an iframe lives
  nowhere else. The fields:
  \<^item> \<open>messages\<close>: the content of \<open>#messages\<close>, written as markup (\<open>html\<close>) or as text;
  \<^item> \<open>posts\<close>: the rows of the \<open>#posts\<close> table, \<open>posts_widget\<close>: whether \<open>dataTable()\<close> has
    been applied to it;
  \<^item> \<open>table_col_class\<close>, \<open>iframe_col_class\<close>, \<open>iframe_col_display\<close>: the classes of the two
    columns and the \<open>display\<close> style of the second;
  \<^item> \<open>privly_iframe\<close>: the children of the preview container; \<open>privly_iframe_title\<close> and
    \<open>privly_iframe_meta\<close>: the texts next to it;
  \<^item> \<open>view_link_handlers\<close>: how many handlers \<open>$('body').on('click', 'a.view_link', ...)\<close>
    has registered (they are all the same function, and jQuery keeps every one);
  \<^item> \<open>created_iframes\<close>: how many times \<open>document.createElement('iframe')\<close> has run;
  \<^item> \<open>message_listener\<close>, \<open>post_button_listener\<close>, \<open>loading_hooks\<close>: whether the listener for
    window messages, the click listener of \<open>#message_link_button\<close> and the two ajax hooks
    are registered; \<open>post_button_style\<close>: the \<open>style\<close> attribute of that button;
  \<^item> \<open>nav_initialized\<close>, \<open>logged_in_nav\<close>, \<open>secret_events\<close>, \<open>url_events\<close>: the calls of
    \<open>initializeNavigation\<close>, \<open>showLoggedInNav\<close>, \<open>firePrivlyMessageSecretEvent\<close> and
    \<open>firePrivlyURLEvent\<close> (with its argument);
  \<^item> \<open>session_check\<close>: the three callbacks given to \<open>initPrivlyService\<close> while the check is
    in flight; \<open>get_requests\<close>: the URL and the callback of every request given to
    \<open>sameOriginGetRequest\<close> and not yet completed.\<close>

record page =
  messages :: content
  posts :: "cell list list"
  posts_widget :: bool
  table_col_class :: "string list"
  iframe_col_class :: "string list"
  iframe_col_display :: "string option"
  privly_iframe :: "element list"
  privly_iframe_title :: string
  privly_iframe_meta :: string
  view_link_handlers :: nat
  created_iframes :: nat
  message_listener :: bool
  post_button_listener :: bool
  post_button_style :: "string option"
  loading_hooks :: bool
  nav_initialized :: bool
  logged_in_nav :: bool
  secret_events :: nat
  url_events :: "string option list"
  session_check :: "(callback \<times> callback \<times> callback) option"
  get_requests :: "(string \<times> callback) list"

text \<open>jQuery's \<open>addClass\<close> and \<open>removeClass\<close> on the class list of one element.\<close>

definition addClass :: "string \<Rightarrow> string list \<Rightarrow> string list" where
  "addClass c cs = (if c \<in> set cs then cs else cs @ [c])"

definition removeClass :: "string \<Rightarrow> string list \<Rightarrow> string list" where
  "removeClass c cs = filter (\<lambda>x. x \<noteq> c) cs"

text \<open>\<open>document.getElementById\<close> for an identifier that no fixed region of the page has:
  the first element of the preview container that carries it. \<open>update_element\<close> writes
  to that same element.\<close>

definition getElementById :: "string \<Rightarrow> page \<Rightarrow> element option" where
  "getElementById i s = find (\<lambda>el. getAttribute ''id'' el = Some i) (privly_iframe s)"

fun update_first :: "('a \<Rightarrow> bool) \<Rightarrow> ('a \<Rightarrow> 'a) \<Rightarrow> 'a list \<Rightarrow> 'a list" where
  "update_first P f [] = []"
| "update_first P f (x # xs) = (if P x then f x # xs else x # update_first P f xs)"

definition update_element :: "string \<Rightarrow> (element \<Rightarrow> element) \<Rightarrow> page \<Rightarrow> page" where
  "update_element i f s =
     s\<lparr>privly_iframe := update_first (\<lambda>el. getAttribute ''id'' el = Some i) f (privly_iframe s)\<rparr>"

section \<open>The callbacks of \<open>Index/js/new.js\<close>\<close>

definition quote :: string where
  "quote = [CHR 0x27]"

text \<open>\<open>callbacks.pendingLogin\<close> (lines 32-63).\<close>

definition pendingLogin :: "env \<Rightarrow> page \<Rightarrow> completion \<times> page" where
  "pendingLogin env s =
     (let s1 = s\<lparr>nav_initialized := True, secret_events := Suc (secret_events s)\<rparr>;
          s2 = (if platformName env = ''HOSTED''
                then s1\<lparr>post_button_style := Some ''display:none''\<rparr>
                else s1\<lparr>post_button_listener := True\<rparr>);
          s3 = s2\<lparr>message_listener := True, loading_hooks := True\<rparr>
      in (Normal, s3\<lparr>session_check := Some (PendingPost, LoginFailure, LoginFailure)\<rparr>))"

text \<open>\<open>callbacks.loginFailure\<close> (lines 69-74).\<close>

definition sign_in_prompt :: "env \<Rightarrow> string" where
  "sign_in_prompt env =
     ''We were unable to sign you into your content server please '' @
     ''<a href='' @ quote @ contentServerDomain env @ ''/users/sign_in'' @ quote @
     '' target='' @ quote @ ''_blank'' @ quote @ ''>sign in</a> to '' @
     ''<a href='' @ quote @ quote @ ''>continue</a>''"

definition loginFailure :: "env \<Rightarrow> page \<Rightarrow> completion \<times> page" where
  "loginFailure env s = (Normal, s\<lparr>messages := Html (sign_in_prompt env)\<rparr>)"

text \<open>\<open>callbacks.pendingPost\<close> (lines 79-90): the request is handed to the network service
  with \<open>callbacks.postCompleted\<close> as its only callback.\<close>

definition pendingPost :: "env \<Rightarrow> page \<Rightarrow> completion \<times> page" where
  "pendingPost env s =
     (Normal,
      s\<lparr>logged_in_nav := True,
        posts_widget := True,
        get_requests := get_requests s @ [(contentServerDomain env @ ''/posts'', PostCompleted)],
        messages := Text ''''\<rparr>)"

text \<open>\<open>callbacks.postSubmit\<close> (lines 95-97) and \<open>callbacks.createError\<close> (lines 102-104).\<close>

definition postSubmit :: "page \<Rightarrow> completion \<times> page" where
  "postSubmit s = (Normal, s)"

definition createError :: "page \<Rightarrow> completion \<times> page" where
  "createError s = (Normal, s\<lparr>messages := Text ''There was an error fetching your posts.''\<rparr>)"

text \<open>The handler that \<open>postCompleted\<close> registers on the body for a click on an
  \<open>a.view_link\<close> (lines 125-175). \<open>link\<close> is the \<open>data-privly-app-link\<close> attribute of the
  clicked element, \<open>undefined\<close> when the element has none: \<open>href.substr\<close> then throws,
  after the four layout changes.

  The iframe is built by the calls to \<open>setAttribute\<close> of lines 141-165, in their order.\<close>

definition new_iframe :: "string \<Rightarrow> string \<Rightarrow> string option \<Rightarrow> element" where
  "new_iframe href params app =
     fold (\<lambda>(k, v). setAttribute k v)
       [(''frameborder'', ''0''),
        (''vspace'', ''0''),
        (''hspace'', ''0''),
        (''width'', ''100%''),
        (''marginwidth'', ''0''),
        (''marginheight'', ''0''),
        (''height'', ''1px''),
        (''frameborder'', ''0''),
        (''style'', ''width: 100%; height: 32px; overflow: hidden;''),
        (''scrolling'', ''no''),
        (''overflow'', ''hidden''),
        (''data-privly-accept-resize'', ''true''),
        (''data-canonical-href'', href),
        (''src'', ''../'' @ ToString app @ ''/show.html?'' @ params),
        (''id'', ''ifrm0''),
        (''name'', ''ifrm0'')]
       (createElement ''iframe'')"

text \<open>jQuery's \<open>text(value)\<close> reads instead of writing when \<open>value\<close> is \<open>undefined\<close>, so the
  title keeps its text when the link has no \<open>privlyApp\<close>.\<close>

definition view_link_click :: "env \<Rightarrow> string option \<Rightarrow> page \<Rightarrow> completion \<times> page" where
  "view_link_click env link s =
     (let s1 = s\<lparr>table_col_class :=
                   addClass ''col-lg-8'' (removeClass ''col-lg-12'' (table_col_class s)),
                 iframe_col_class := addClass ''col-lg-4'' (iframe_col_class s),
                 iframe_col_display := Some ''inherit''\<rparr>
      in case link of
           None \<Rightarrow> (Throw TypeError, s1)
         | Some href \<Rightarrow>
             (let params = substr href (indexOf href ''?'' + 1);
                  app = parameterStringToHash env params ''privlyApp''
              in if test_letters app then
                   (let iFrame = new_iframe href params app
                    in (Normal,
                        s1\<lparr>created_iframes := Suc (created_iframes s1),
                           privly_iframe := [] @ [iFrame],
                           privly_iframe_title :=
                             (case app of None \<Rightarrow> privly_iframe_title s1 | Some a \<Rightarrow> a),
                           privly_iframe_meta := ''The App's contents are below.''\<rparr>))
                 else (Normal, s1)))"

text \<open>\<open>callbacks.postCompleted\<close> (lines 109-176). The loop adds one row per record and
  throws at the first record whose \<open>privly_URL\<close> decodes to no \<open>privlyDataURL\<close>
  (\<open>undefined.replace\<close>); the rows added before stay, and the statements after the loop
  are not reached. \<open>response.json.length\<close> throws on \<open>null\<close> and is \<open>undefined\<close> on an
  object without a length, for which the loop body never runs.\<close>

definition post_row :: "post \<Rightarrow> string \<Rightarrow> cell list" where
  "post_row p privlyDataURL =
     [Markup (''<a href='' @ quote @ ''#'' @ quote @ '' class='' @ quote @ ''view_link'' @ quote @
              '' data-privly-app-link='' @ quote @ privly_URL p @ quote @ ''>View</a>''),
      Markup (''<a target='' @ quote @ ''_blank'' @ quote @ '' href='' @ manageURL privlyDataURL @
              ''>Manage</a>''),
      Markup (created_at p),
      Markup (burn_after_date p),
      Markup (updated_at p),
      Markup (privly_application p),
      Flag (public p)]"

fun add_rows :: "env \<Rightarrow> post list \<Rightarrow> page \<Rightarrow> completion \<times> page" where
  "add_rows env [] s = (Normal, s)"
| "add_rows env (p # ps) s =
     (case parameterStringToHash env (privly_URL p) ''privlyDataURL'' of
        None \<Rightarrow> (Throw TypeError, s)
      | Some privlyDataURL \<Rightarrow>
          add_rows env ps
            (s\<lparr>posts_widget := True, posts := posts s @ [post_row p privlyDataURL]\<rparr>))"

definition register_view_link_handler :: "page \<Rightarrow> page" where
  "register_view_link_handler s = s\<lparr>view_link_handlers := Suc (view_link_handlers s)\<rparr>"

definition postCompleted :: "env \<Rightarrow> response option \<Rightarrow> page \<Rightarrow> completion \<times> page" where
  "postCompleted env arg s =
     (case arg of
        None \<Rightarrow> (Throw TypeError, s)
      | Some response \<Rightarrow>
          (case json response of
             JsonNull \<Rightarrow> (Throw TypeError, s)
           | JsonObject \<Rightarrow> (Normal, register_view_link_handler s)
           | JsonArray ps \<Rightarrow>
               (case add_rows env ps s of
                  (Normal, s') \<Rightarrow> (Normal, register_view_link_handler s')
                | (Throw e, s') \<Rightarrow> (Throw e, s'))))"

text \<open>\<open>resizeIframePostedMessage\<close> (lines 222-226). The target of the assignment is
  evaluated first, so a missing element throws before the data is looked at. The
  assignment to \<open>style.height\<close> changes the element when the browser accepts the text as a
  height, and nothing otherwise; it does not throw.\<close>

definition resizeIframePostedMessage :: "env \<Rightarrow> message \<Rightarrow> page \<Rightarrow> completion \<times> page" where
  "resizeIframePostedMessage env e s =
     (if origin e = location_origin env then
        (case getElementById ''ifrm0'' s of
           None \<Rightarrow> (Throw TypeError, s)
         | Some _ \<Rightarrow>
             (case data e of
                OtherData \<Rightarrow> (Throw TypeError, s)
              | StringData d \<Rightarrow>
                  (let height = ToString (at_index (split_str d CHR '','') 1) @ ''px''
                   in (Normal,
                       if accepts_height env height
                       then update_element ''ifrm0'' (set_style_property ''height'' height) s
                       else s))))
      else (Normal, s))"

text \<open>\<open>postUrl\<close> (lines 232-235): the argument handed to
  \<open>privlyExtension.firePrivlyURLEvent\<close> is recorded in \<open>url_events\<close>.\<close>

definition postUrl :: "page \<Rightarrow> completion \<times> page" where
  "postUrl s =
     (case getElementById ''ifrm0'' s of
        None \<Rightarrow> (Throw TypeError, s)
      | Some el \<Rightarrow>
          (Normal, s\<lparr>url_events := url_events s @ [getAttribute ''data-canonical-href'' el]\<rparr>))"

section \<open>Events\<close>

text \<open>Modelled from the spec: the network service (\<open>privlyNetworkService\<close>, of
  \<open>shared/javascripts/network_service.js\<close>, which is not among the sources). It answers a
  session check by calling one of the three callbacks it was given, and it completes a
  request either by calling the callback it was given with a response, or without calling
  anything; it has no other way into the script.

  The script itself runs as handlers of events: \<open>callbacks.pendingLogin\<close> on
  \<open>DOMContentLoaded\<close> (line 238), the callbacks when the service calls them, the
  registered handlers on a click on a view link, in order and until one throws,
  \<open>resizeIframePostedMessage\<close> on a window message and \<open>postUrl\<close> on a click on the button,
  once they are registered. An exception ends the handler that threw; what it changed
  before stays.\<close>

datatype session_outcome = SessionOk | SessionFailedFirst | SessionFailedSecond

datatype get_outcome = Delivered response | Dropped

datatype event =
    DOMContentLoaded
  | SessionChecked session_outcome
  | GetCompleted get_outcome
  | ViewLinkClicked "string option"
  | MessagePosted message
  | PostButtonClicked

fun invoke :: "env \<Rightarrow> callback \<Rightarrow> response option \<Rightarrow> page \<Rightarrow> completion \<times> page" where
  "invoke env PendingLogin arg s = pendingLogin env s"
| "invoke env LoginFailure arg s = loginFailure env s"
| "invoke env PendingPost arg s = pendingPost env s"
| "invoke env PostSubmit arg s = postSubmit s"
| "invoke env CreateError arg s = createError s"
| "invoke env PostCompleted arg s = postCompleted env arg s"

fun run_handlers :: "nat \<Rightarrow> env \<Rightarrow> string option \<Rightarrow> page \<Rightarrow> completion \<times> page" where
  "run_handlers 0 env link s = (Normal, s)"
| "run_handlers (Suc n) env link s =
     (case view_link_click env link s of
        (Normal, s') \<Rightarrow> run_handlers n env link s'
      | (Throw e, s') \<Rightarrow> (Throw e, s'))"

fun handle :: "env \<Rightarrow> event \<Rightarrow> page \<Rightarrow> completion \<times> page" where
  "handle env DOMContentLoaded s = invoke env PendingLogin None s"
| "handle env (SessionChecked outcome) s =
     (case session_check s of
        None \<Rightarrow> (Normal, s)
      | Some (success, failure1, failure2) \<Rightarrow>
          invoke env
            (case outcome of
               SessionOk \<Rightarrow> success
             | SessionFailedFirst \<Rightarrow> failure1
             | SessionFailedSecond \<Rightarrow> failure2)
            None (s\<lparr>session_check := None\<rparr>))"
| "handle env (GetCompleted outcome) s =
     (case get_requests s of
        [] \<Rightarrow> (Normal, s)
      | (url, cb) # rest \<Rightarrow>
          (case outcome of
             Dropped \<Rightarrow> (Normal, s\<lparr>get_requests := rest\<rparr>)
           | Delivered r \<Rightarrow> invoke env cb (Some r) (s\<lparr>get_requests := rest\<rparr>)))"
| "handle env (ViewLinkClicked link) s = run_handlers (view_link_handlers s) env link s"
| "handle env (MessagePosted e) s =
     (if message_listener s then resizeIframePostedMessage env e s else (Normal, s))"
| "handle env PostButtonClicked s =
     (if post_button_listener s then postUrl s else (Normal, s))"

text \<open>A run of the page: the events in order, each from the state the one before left.\<close>

fun run :: "env \<Rightarrow> event list \<Rightarrow> page \<Rightarrow> page" where
  "run env [] s = s"
| "run env (ev # evs) s = run env evs (snd (handle env ev s))"

section \<open>A concrete codec, environment and page\<close>

text \<open>Modelled from the spec: the Parameter Codec
  (\<open>privlyParameters.parameterStringToHash\<close>, of \<open>shared/javascripts/parameters.js\<close>, a file
  the script loads and that is not among the sources), on query strings without percent
  escapes: \<open>key=value\<close> pairs joined by \<open>&\<close> become a mapping from key to value, a value
  may itself contain \<open>=\<close> and \<open>?\<close>, and no key is required. The theorems below hold for
  every codec; this one is the codec of the concrete cases.\<close>

definition key_value :: "string \<Rightarrow> (string \<times> string) option" where
  "key_value kv =
     (if CHR ''='' \<in> set kv
      then Some (takeWhile (\<lambda>c. c \<noteq> CHR ''='') kv, drop 1 (dropWhile (\<lambda>c. c \<noteq> CHR ''='') kv))
      else None)"

definition plain_codec :: "string \<Rightarrow> (string \<rightharpoonup> string)" where
  "plain_codec q =
     fold (\<lambda>kv m. case key_value kv of None \<Rightarrow> m | Some (k, v) \<Rightarrow> m(k \<mapsto> v))
       (split_str q CHR ''&'') Map.empty"

text \<open>The lengths of the concrete cases: decimal digits followed by \<open>px\<close>, spaces around
  them allowed. A browser accepts these as a height and more besides; it accepts none of
  the other texts that the concrete cases assign (\<open>px\<close> and \<open>tallpx\<close>). The theorems
  below hold whatever the browser accepts.\<close>

definition is_digit :: "char \<Rightarrow> bool" where
  "is_digit c = (let n = (of_char c :: nat) in 48 \<le> n \<and> n \<le> 57)"

definition px_length :: "string \<Rightarrow> bool" where
  "px_length v =
     (let t = trim v in takeWhile is_digit t \<noteq> [] \<and> dropWhile is_digit t = ''px'')"

definition example_env :: env where
  "example_env =
     \<lparr>parameterStringToHash = plain_codec,
      contentServerDomain = ''https://h'',
      platformName = ''CHROME'',
      location_origin = ''https://h'',
      accepts_height = px_length\<rparr>"

text \<open>A page on which the script has not run yet: an empty table, an empty preview
  container, nothing registered and nothing in flight.\<close>

definition example_page :: page where
  "example_page =
     \<lparr>messages = Text '''',
      posts = [],
      posts_widget = False,
      table_col_class = [''col-lg-12''],
      iframe_col_class = [],
      iframe_col_display = Some ''none'',
      privly_iframe = [],
      privly_iframe_title = '''',
      privly_iframe_meta = '''',
      view_link_handlers = 0,
      created_iframes = 0,
      message_listener = False,
      post_button_listener = False,
      post_button_style = None,
      loading_hooks = False,
      nav_initialized = False,
      logged_in_nav = False,
      secret_events = 0,
      url_events = [],
      session_check = None,
      get_requests = []\<rparr>"

text \<open>The arguments on which \<open>postCompleted\<close> returns: a response whose body is an array
  of post records that each decode to a \<open>privlyDataURL\<close>, or an object without a length.\<close>

definition decodes :: "env \<Rightarrow> post \<Rightarrow> bool" where
  "decodes env p = (parameterStringToHash env (privly_URL p) ''privlyDataURL'' \<noteq> None)"

definition completes :: "env \<Rightarrow> response option \<Rightarrow> bool" where
  "completes env arg =
     (case arg of
        None \<Rightarrow> False
      | Some r \<Rightarrow>
          (case json r of
             JsonArray ps \<Rightarrow> list_all (decodes env) ps
           | JsonObject \<Rightarrow> True
           | JsonNull \<Rightarrow> False))"

definition example_post :: post where
  "example_post =
     \<lparr>privly_URL =
        ''https://h/apps/Message/show?privlyApp=Message&privlyDataURL=https://h/posts/1.json'',
      created_at = ''2014-06-01'',
      burn_after_date = ''2014-07-01'',
      updated_at = ''2014-06-02'',
      privly_application = ''Message'',
      public = True\<rparr>"

definition example_link :: string where
  "example_link =
     ''https://h/apps/Message/show?privlyApp=Message&privlyDataURL=https://h/posts/1.json''"

text \<open>The example page after one post-list response and a click on the view link of its
  row.\<close>

definition previewed_page :: page where
  "previewed_page =
     snd (handle example_env (ViewLinkClicked (Some example_link))
       (snd (postCompleted example_env (Some \<lparr>json = JsonArray [example_post]\<rparr>) example_page)))"

section \<open>Strings\<close>

lemma replace_str_absent: "\<not> sublist pat s \<Longrightarrow> replace_str s pat rep = s"
proof (induction s)
  case Nil
  then show ?case by auto
next
  case (Cons c cs)
  then show ?case by (simp add: sublist_Cons_right)
qed

lemma prefix_of_front:
  assumes "prefix p (xs @ ys)" and "length p \<le> length xs"
  shows "prefix p xs"
proof -
  from assms(1) obtain zs where "xs @ ys = p @ zs" by (auto simp: prefix_def)
  with assms(2) have "p = take (length p) xs"
    by (metis append_eq_conv_conj take_append diff_is_0_eq take_0 append_Nil2)
  then show ?thesis by (metis take_is_prefix)
qed

lemma replace_str_first:
  assumes "pat \<noteq> []" and "\<not> sublist pat (pre @ butlast pat)"
  shows "replace_str (pre @ pat @ post) pat rep = pre @ rep @ post"
  using assms
proof (induction pre)
  case Nil
  then obtain c cs where "pat = c # cs" by (cases pat) auto
  then show ?case by simp
next
  case (Cons a pre)
  have np: "\<not> prefix pat (a # pre @ butlast pat)"
    using Cons.prems(2) by (simp add: sublist_Cons_right)
  have "\<not> prefix pat (a # pre @ pat @ post)"
  proof
    assume p: "prefix pat (a # pre @ pat @ post)"
    have e: "a # pre @ pat @ post = (a # pre @ butlast pat) @ (last pat # post)"
      using Cons.prems(1) by simp
    have "length pat \<le> length (a # pre @ butlast pat)"
      using Cons.prems(1) by (cases pat) auto
    with p e have "prefix pat (a # pre @ butlast pat)"
      using prefix_of_front by metis
    with np show False by simp
  qed
  moreover have "\<not> sublist pat (pre @ butlast pat)"
    using Cons.prems(2) by (simp add: sublist_Cons_right)
  ultimately show ?case using Cons.IH Cons.prems(1) by simp
qed

lemma no_json_around_html:
  assumes "\<not> sublist ''.json'' pre" and "\<not> sublist ''.json'' post"
  shows "\<not> sublist ''.json'' (pre @ ''format=html'' @ post)"
  using assms
  apply (simp add: sublist_append sublist_Cons_right)
  apply (auto simp: append_eq_Cons_conv Cons_eq_append_conv suffix_Cons prefix_Cons)
  done

lemma indexOf_first:
  "c \<notin> set pre \<Longrightarrow> indexOf (pre @ c # post) [c] = int (length pre)"
  by (induction pre) (auto simp: Let_def)

lemma substr_after_first:
  assumes "c \<notin> set pre"
  shows "substr (pre @ c # post) (indexOf (pre @ c # post) [c] + 1) = post"
proof -
  have "indexOf (pre @ c # post) [c] + 1 = int (Suc (length pre))"
    using assms by (simp add: indexOf_first)
  then show ?thesis by (simp add: substr_def del: of_nat_Suc)
qed

lemma sublist_length: "sublist xs ys \<Longrightarrow> length xs \<le> length ys"
  by (auto simp: sublist_def)

lemma first_occurrence:
  assumes "pat \<noteq> []" and "sublist pat u"
  shows "\<exists>pre post. u = pre @ pat @ post \<and> \<not> sublist pat (pre @ butlast pat)"
  using assms(2)
proof (induction u)
  case Nil
  with assms(1) show ?case by simp
next
  case (Cons c cs)
  show ?case
  proof (cases "prefix pat (c # cs)")
    case True
    then obtain post where "c # cs = [] @ pat @ post" by (auto simp: prefix_def)
    moreover have "\<not> sublist pat ([] @ butlast pat)"
      using assms(1) sublist_length[of pat "butlast pat"] by (cases pat) auto
    ultimately show ?thesis by blast
  next
    case False
    with Cons.prems have "sublist pat cs" by (simp add: sublist_Cons_right)
    from Cons.IH[OF this] obtain pre post
      where e: "cs = pre @ pat @ post" and n: "\<not> sublist pat (pre @ butlast pat)" by blast
    have "\<not> prefix pat (c # pre @ butlast pat)"
    proof
      assume "prefix pat (c # pre @ butlast pat)"
      moreover have "prefix (c # pre @ butlast pat) (c # cs)"
        using e assms(1) by (metis Cons_prefix_Cons append_butlast_last_id append_assoc
            prefix_append prefix_order.refl prefixI)
      ultimately have "prefix pat (c # cs)" by (rule prefix_order.trans)
      with False show False by simp
    qed
    with n have "\<not> sublist pat ((c # pre) @ butlast pat)" by (simp add: sublist_Cons_right)
    moreover have "c # cs = (c # pre) @ pat @ post" using e by simp
    ultimately show ?thesis by blast
  qed
qed

section \<open>The manage link\<close>

text \<open>
  C5 (as amended). For every post record whose \<open>privly_URL\<close> decodes to a \<open>privlyDataURL\<close>,
  the row's manage link is \<open><a target='_blank' href=\<close>, the manage URL and
  \<open>>Manage</a>\<close>, where the manage URL is the \<open>privlyDataURL\<close> with its first
  \<open>format=json\<close> replaced by \<open>format=html\<close> and then the first \<open>.json\<close> of the result
  replaced by \<open>.html\<close>. Case by case, an occurrence being the first when the text does not
  occur in what precedes it followed by all of the text but its last character:
  \<^item> a URL with neither text is its own manage URL;
  \<^item> a URL without \<open>format=json\<close> whose first \<open>.json\<close> follows \<open>pre\<close>, such as
    \<open>.../posts/1.json?x=1\<close>, has that \<open>.json\<close> replaced by \<open>.html\<close>;
  \<^item> a URL whose first \<open>format=json\<close> follows \<open>pre\<close> and is followed by \<open>post\<close>, with no
    \<open>.json\<close> in \<open>pre\<close> or \<open>post\<close>, becomes \<open>pre\<close>, \<open>format=html\<close>, \<open>post\<close>: nothing else changes;
  \<^item> when that intermediate URL does contain \<open>.json\<close>, its first \<open>.json\<close> is replaced as well
    (\<open>.../posts/1.json?format=json\<close> becomes \<open>.../posts/1.html?format=html\<close>).
  A URL that contains one of the two texts has a first occurrence of it, so every URL is in
  one of the four cases.
\<close>

theorem manageURL_rewrite:
  "(\<not> sublist ''format=json'' u \<and> \<not> sublist ''.json'' u \<longrightarrow> manageURL u = u) \<and>
   (\<not> sublist ''format=json'' (pre1 @ ''.json'' @ post1) \<and> \<not> sublist ''.json'' (pre1 @ ''.jso'')
      \<longrightarrow> manageURL (pre1 @ ''.json'' @ post1) = pre1 @ ''.html'' @ post1) \<and>
   (\<not> sublist ''format=json'' (pre2 @ ''format=jso'') \<and>
    \<not> sublist ''.json'' pre2 \<and> \<not> sublist ''.json'' post2
      \<longrightarrow> manageURL (pre2 @ ''format=json'' @ post2) = pre2 @ ''format=html'' @ post2) \<and>
   (\<not> sublist ''format=json'' (pre3 @ ''format=jso'') \<and>
    pre3 @ ''format=html'' @ post3 = a @ ''.json'' @ b \<and> \<not> sublist ''.json'' (a @ ''.jso'')
      \<longrightarrow> manageURL (pre3 @ ''format=json'' @ post3) = a @ ''.html'' @ b) \<and>
   (sublist ''format=json'' v \<longrightarrow>
      (\<exists>pre post. v = pre @ ''format=json'' @ post \<and>
                  \<not> sublist ''format=json'' (pre @ ''format=jso''))) \<and>
   (sublist ''.json'' w \<longrightarrow>
      (\<exists>pre post. w = pre @ ''.json'' @ post \<and> \<not> sublist ''.json'' (pre @ ''.jso''))) \<and>
   (parameterStringToHash env (privly_URL p) ''privlyDataURL'' = Some d \<longrightarrow>
      add_rows env [p] s =
        (Normal, s\<lparr>posts_widget := True, posts := posts s @ [post_row p d]\<rparr>) \<and>
      post_row p d ! 1 =
        Markup (''<a target='' @ [CHR 0x27] @ ''_blank'' @ [CHR 0x27] @ '' href='' @
                manageURL d @ ''>Manage</a>''))"
proof (intro conjI impI)
  assume "\<not> sublist ''format=json'' u \<and> \<not> sublist ''.json'' u"
  then show "manageURL u = u"
    by (simp add: manageURL_def replace_str_absent)
next
  assume a: "\<not> sublist ''format=json'' (pre1 @ ''.json'' @ post1) \<and>
             \<not> sublist ''.json'' (pre1 @ ''.jso'')"
  have "replace_str (pre1 @ ''.json'' @ post1) ''.json'' ''.html'' = pre1 @ ''.html'' @ post1"
    using a by (intro replace_str_first) simp_all
  then show "manageURL (pre1 @ ''.json'' @ post1) = pre1 @ ''.html'' @ post1"
    using a by (simp add: manageURL_def replace_str_absent)
next
  assume a: "\<not> sublist ''format=json'' (pre2 @ ''format=jso'') \<and>
             \<not> sublist ''.json'' pre2 \<and> \<not> sublist ''.json'' post2"
  have "replace_str (pre2 @ ''format=json'' @ post2) ''format=json'' ''format=html'' =
        pre2 @ ''format=html'' @ post2"
    using a by (intro replace_str_first) simp_all
  moreover have "\<not> sublist ''.json'' (pre2 @ ''format=html'' @ post2)"
    using a by (intro no_json_around_html) simp_all
  ultimately show "manageURL (pre2 @ ''format=json'' @ post2) = pre2 @ ''format=html'' @ post2"
    by (simp add: manageURL_def replace_str_absent)
next
  assume a: "\<not> sublist ''format=json'' (pre3 @ ''format=jso'') \<and>
    pre3 @ ''format=html'' @ post3 = a @ ''.json'' @ b \<and> \<not> sublist ''.json'' (a @ ''.jso'')"
  have "replace_str (pre3 @ ''format=json'' @ post3) ''format=json'' ''format=html'' =
        pre3 @ ''format=html'' @ post3"
    using a by (intro replace_str_first) simp_all
  moreover have "replace_str (a @ ''.json'' @ b) ''.json'' ''.html'' = a @ ''.html'' @ b"
    using a by (intro replace_str_first) simp_all
  ultimately show "manageURL (pre3 @ ''format=json'' @ post3) = a @ ''.html'' @ b"
    using a by (simp only: manageURL_def)
next
  assume "sublist ''format=json'' v"
  then show "\<exists>pre post. v = pre @ ''format=json'' @ post \<and>
                  \<not> sublist ''format=json'' (pre @ ''format=jso'')"
    using first_occurrence[of "''format=json''" v] by simp
next
  assume "sublist ''.json'' w"
  then show "\<exists>pre post. w = pre @ ''.json'' @ post \<and> \<not> sublist ''.json'' (pre @ ''.jso'')"
    using first_occurrence[of "''.json''" w] by simp
next
  assume "parameterStringToHash env (privly_URL p) ''privlyDataURL'' = Some d"
  then show "add_rows env [p] s =
        (Normal, s\<lparr>posts_widget := True, posts := posts s @ [post_row p d]\<rparr>)"
    by simp
next
  show "post_row p d ! 1 =
        Markup (''<a target='' @ [CHR 0x27] @ ''_blank'' @ [CHR 0x27] @ '' href='' @
                manageURL d @ ''>Manage</a>'')"
    by (simp add: post_row_def quote_def)
qed

lemmas example_defs = example_env_def example_page_def plain_codec_def key_value_def substr_def
  letters_only_def is_letter_def test_letters_def ToString_def px_length_def is_digit_def
  trim_def

theorem manageURL_rewrite_witness:
  "\<not> sublist ''format=json'' ''https://h/posts/1'' \<and> \<not> sublist ''.json'' ''https://h/posts/1'' \<and>
   manageURL ''https://h/posts/1'' = ''https://h/posts/1'' \<and>
   \<not> sublist ''format=json'' (''https://h/posts/1'' @ ''.json'' @ ''?x=1'') \<and>
   \<not> sublist ''.json'' (''https://h/posts/1'' @ ''.jso'') \<and>
   manageURL ''https://h/posts/1.json?x=1'' = ''https://h/posts/1.html?x=1'' \<and>
   \<not> sublist ''format=json'' (''https://h/posts/1?'' @ ''format=jso'') \<and>
   \<not> sublist ''.json'' ''https://h/posts/1?'' \<and> \<not> sublist ''.json'' ''&x=1'' \<and>
   manageURL ''https://h/posts/1?format=json&x=1'' = ''https://h/posts/1?format=html&x=1'' \<and>
   \<not> sublist ''format=json'' (''https://h/posts/1.json?'' @ ''format=jso'') \<and>
   ''https://h/posts/1.json?'' @ ''format=html'' @ '''' =
     ''https://h/posts/1'' @ ''.json'' @ ''?format=html'' \<and>
   manageURL ''https://h/posts/1.json?format=json'' = ''https://h/posts/1.html?format=html'' \<and>
   sublist ''format=json'' ''https://h/posts/1.json?format=json'' \<and>
   sublist ''.json'' ''https://h/posts/1.json?format=json'' \<and>
   parameterStringToHash example_env (privly_URL example_post) ''privlyDataURL'' =
     Some ''https://h/posts/1.json'' \<and>
   posts (snd (add_rows example_env [example_post] example_page)) ! 0 ! 1 =
     Markup (''<a target='' @ [CHR 0x27] @ ''_blank'' @ [CHR 0x27] @
             '' href=https://h/posts/1.html>Manage</a>'')"
proof -
  have d: "parameterStringToHash example_env (privly_URL example_post) ''privlyDataURL'' =
     Some ''https://h/posts/1.json''"
    by (simp add: example_post_def example_defs)
  have m: "manageURL ''https://h/posts/1.json'' = ''https://h/posts/1.html''"
    using manageURL_rewrite [where ?pre1.0 = "''https://h/posts/1''" and ?post1.0 = "''''",
        THEN conjunct2, THEN conjunct1]
    by (simp add: sublist_Cons_right)
  have p: "posts example_page = []" by (simp add: example_page_def)
  note r = manageURL_rewrite [where u = "''https://h/posts/1''"
      and ?pre1.0 = "''https://h/posts/1''" and ?post1.0 = "''?x=1''"
      and ?pre2.0 = "''https://h/posts/1?''" and ?post2.0 = "''&x=1''"
      and ?pre3.0 = "''https://h/posts/1.json?''" and ?post3.0 = "''''"
      and a = "''https://h/posts/1''" and b = "''?format=html''"
      and v = "''https://h/posts/1.json?format=json''"
      and w = "''https://h/posts/1.json?format=json''"
      and env = example_env and p = example_post and d = "''https://h/posts/1.json''"
      and s = example_page]
  show ?thesis
    using r d m p by (simp add: sublist_Cons_right)
qed

text \<open>The claim as it was written fails where another query parameter contains \<open>.json\<close>:
  that parameter is rewritten as well.\<close>

theorem manageURL_other_parameter_counterexample:
  "manageURL (''https://h/posts/1?'' @ ''format=json'' @ ''&next=a.json'') =
     ''https://h/posts/1?format=html&next=a.html'' \<and>
   manageURL (''https://h/posts/1?'' @ ''format=json'' @ ''&next=a.json'') \<noteq>
     ''https://h/posts/1?'' @ ''format=html'' @ ''&next=a.json''"
  by (simp add: manageURL_def)

section \<open>The view link handler\<close>

lemma src_new_iframe:
  "getAttribute ''src'' (new_iframe href params app) =
   Some (''../'' @ ToString app @ ''/show.html?'' @ params)"
  by (simp add: new_iframe_def getAttribute_def setAttribute_def createElement_def)

lemma id_new_iframe: "getAttribute ''id'' (new_iframe href params app) = Some ''ifrm0''"
  by (simp add: new_iframe_def getAttribute_def setAttribute_def createElement_def)

lemma view_link_click_refused:
  "\<not> test_letters (parameterStringToHash env (substr href (indexOf href ''?'' + 1)) ''privlyApp'') \<Longrightarrow>
   fst (view_link_click env (Some href) s) = Normal \<and>
   created_iframes (snd (view_link_click env (Some href) s)) = created_iframes s \<and>
   privly_iframe (snd (view_link_click env (Some href) s)) = privly_iframe s"
  by (simp add: view_link_click_def Let_def)

lemma run_handlers_refused:
  "\<not> test_letters (parameterStringToHash env (substr href (indexOf href ''?'' + 1)) ''privlyApp'') \<Longrightarrow>
   fst (run_handlers n env (Some href) s) = Normal \<and>
   created_iframes (snd (run_handlers n env (Some href) s)) = created_iframes s \<and>
   privly_iframe (snd (run_handlers n env (Some href) s)) = privly_iframe s"
proof (induction n arbitrary: s)
  case 0
  show ?case by simp
next
  case (Suc n)
  obtain c s' where v: "view_link_click env (Some href) s = (c, s')"
    by (cases "view_link_click env (Some href) s")
  with view_link_click_refused[OF Suc.prems, of s]
  have "c = Normal" "created_iframes s' = created_iframes s" "privly_iframe s' = privly_iframe s"
    by simp_all
  with v Suc.IH[OF Suc.prems, of s'] show ?case by simp
qed

lemma view_link_click_accepted:
  assumes "test_letters (parameterStringToHash env (substr href (indexOf href ''?'' + 1)) ''privlyApp'')"
  shows "fst (view_link_click env (Some href) s) = Normal"
    and "privly_iframe (snd (view_link_click env (Some href) s)) =
         [new_iframe href (substr href (indexOf href ''?'' + 1))
            (parameterStringToHash env (substr href (indexOf href ''?'' + 1)) ''privlyApp'')]"
    and "created_iframes (snd (view_link_click env (Some href) s)) = Suc (created_iframes s)"
  using assms by (simp_all add: view_link_click_def Let_def)

text \<open>For a \<open>privlyApp\<close> that is present and whose decoded value does not match
  \<open>^[a-zA-Z]+$\<close> (such as \<open>foo/bar\<close>, \<open><script>\<close> or the empty string), the gate of line 135
  refuses: the click handler constructs no iframe and the preview container keeps its
  content, and so does the whole click, whatever the number of handlers registered.\<close>

theorem view_link_refused:
  assumes "parameterStringToHash env (substr href (indexOf href ''?'' + 1)) ''privlyApp'' = Some app"
    and "\<not> letters_only app"
  shows "created_iframes (snd (view_link_click env (Some href) s)) = created_iframes s \<and>
         privly_iframe (snd (view_link_click env (Some href) s)) = privly_iframe s \<and>
         created_iframes (snd (handle env (ViewLinkClicked (Some href)) s)) = created_iframes s \<and>
         privly_iframe (snd (handle env (ViewLinkClicked (Some href)) s)) = privly_iframe s"
proof -
  have r: "\<not> test_letters
               (parameterStringToHash env (substr href (indexOf href ''?'' + 1)) ''privlyApp'')"
    using assms by (simp add: test_letters_def ToString_def)
  show ?thesis
    using view_link_click_refused[OF r, of s]
      run_handlers_refused[OF r, of "view_link_handlers s" s]
    by simp
qed

theorem view_link_refused_witness:
  "parameterStringToHash example_env
     (substr ''https://h/apps/x/show?privlyApp=foo/bar&privlyDataURL=https://h/posts/1.json''
        (indexOf ''https://h/apps/x/show?privlyApp=foo/bar&privlyDataURL=https://h/posts/1.json''
           ''?'' + 1))
     ''privlyApp'' = Some ''foo/bar'' \<and>
   \<not> letters_only ''foo/bar'' \<and>
   created_iframes (snd (view_link_click example_env
     (Some ''https://h/apps/x/show?privlyApp=foo/bar&privlyDataURL=https://h/posts/1.json'')
     example_page)) = 0 \<and>
   privly_iframe (snd (view_link_click example_env
     (Some ''https://h/apps/x/show?privlyApp=foo/bar&privlyDataURL=https://h/posts/1.json'')
     example_page)) = []"
  using view_link_refused [of example_env
     "''https://h/apps/x/show?privlyApp=foo/bar&privlyDataURL=https://h/posts/1.json''"
     "''foo/bar''" example_page]
  by (simp add: example_defs)

text \<open>
  C1 (the code does not do this for a missing parameter). A view link without a
  \<open>privlyApp\<close> parameter has no application name, and the handler should construct and
  insert no iframe. The handler tests \<open>undefined\<close>, which the regular expression reads as
  the text \<open>undefined\<close>: the gate lets it through, one iframe is constructed and inserted,
  its \<open>src\<close> under the directory \<open>../undefined/\<close>, and the title next to it keeps its text.
\<close>

theorem missing_privlyApp_builds_iframe:
  "parameterStringToHash example_env
     (substr ''https://h/apps/x/show?privlyDataURL=https://h/posts/1.json''
        (indexOf ''https://h/apps/x/show?privlyDataURL=https://h/posts/1.json'' ''?'' + 1))
     ''privlyApp'' = None \<and>
   fst (view_link_click example_env
     (Some ''https://h/apps/x/show?privlyDataURL=https://h/posts/1.json'') example_page) = Normal \<and>
   created_iframes (snd (view_link_click example_env
     (Some ''https://h/apps/x/show?privlyDataURL=https://h/posts/1.json'') example_page)) = 1 \<and>
   map (getAttribute ''src'') (privly_iframe (snd (view_link_click example_env
     (Some ''https://h/apps/x/show?privlyDataURL=https://h/posts/1.json'') example_page))) =
   [Some ''../undefined/show.html?privlyDataURL=https://h/posts/1.json''] \<and>
   privly_iframe_title (snd (view_link_click example_env
     (Some ''https://h/apps/x/show?privlyDataURL=https://h/posts/1.json'') example_page)) = ''''"
  by (simp add: example_defs view_link_click_def Let_def src_new_iframe)

text \<open>
  C4. For every view link \<open>pre?params\<close> (\<open>pre\<close> without a question mark, so that \<open>params\<close> is
  what follows the first one) whose decoded \<open>privlyApp\<close> passes the test, the preview
  container holds one iframe after the click and its \<open>src\<close> is exactly
  \<open>"../" + app + "/show.html?" + params\<close>.
\<close>

theorem view_link_src:
  assumes "CHR ''?'' \<notin> set pre"
    and "test_letters (parameterStringToHash env params ''privlyApp'')"
  shows "map (getAttribute ''src'')
           (privly_iframe (snd (view_link_click env (Some (pre @ ''?'' @ params)) s))) =
         [Some (''../'' @ ToString (parameterStringToHash env params ''privlyApp'') @
                ''/show.html?'' @ params)]"
proof -
  define href where "href = pre @ ''?'' @ params"
  have p: "substr href (indexOf href ''?'' + 1) = params"
    unfolding href_def using substr_after_first[OF assms(1), of params] by simp
  have t: "test_letters
             (parameterStringToHash env (substr href (indexOf href ''?'' + 1)) ''privlyApp'')"
    using assms(2) p by simp
  have "privly_iframe (snd (view_link_click env (Some href) s)) =
        [new_iframe href params (parameterStringToHash env params ''privlyApp'')]"
    using view_link_click_accepted(2)[OF t] p by simp
  then have "map (getAttribute ''src'') (privly_iframe (snd (view_link_click env (Some href) s))) =
        [Some (''../'' @ ToString (parameterStringToHash env params ''privlyApp'') @
                ''/show.html?'' @ params)]"
    by (simp add: src_new_iframe)
  then show ?thesis by (simp add: href_def)
qed

theorem view_link_src_witness:
  "CHR ''?'' \<notin> set ''https://h/apps/Message/show'' \<and>
   test_letters (parameterStringToHash example_env
      ''privlyApp=Message&privlyDataURL=https://h/posts/1.json'' ''privlyApp'') \<and>
   map (getAttribute ''src'')
     (privly_iframe (snd (view_link_click example_env
        (Some ''https://h/apps/Message/show?privlyApp=Message&privlyDataURL=https://h/posts/1.json'')
        example_page))) =
   [Some ''../Message/show.html?privlyApp=Message&privlyDataURL=https://h/posts/1.json'']"
  using view_link_src [of "''https://h/apps/Message/show''" example_env
      "''privlyApp=Message&privlyDataURL=https://h/posts/1.json''" example_page]
  by (simp add: example_defs)

text \<open>What a click and what \<open>postCompleted\<close> leave alone.\<close>

lemma view_link_click_frame:
  "messages (snd (view_link_click env link s)) = messages s \<and>
   posts (snd (view_link_click env link s)) = posts s \<and>
   view_link_handlers (snd (view_link_click env link s)) = view_link_handlers s \<and>
   session_check (snd (view_link_click env link s)) = session_check s \<and>
   get_requests (snd (view_link_click env link s)) = get_requests s"
  by (simp add: view_link_click_def Let_def split: option.splits)


lemma run_handlers_frame:
  "messages (snd (run_handlers n env link s)) = messages s \<and>
   posts (snd (run_handlers n env link s)) = posts s \<and>
   view_link_handlers (snd (run_handlers n env link s)) = view_link_handlers s \<and>
   session_check (snd (run_handlers n env link s)) = session_check s \<and>
   get_requests (snd (run_handlers n env link s)) = get_requests s"
proof (induction n arbitrary: s)
  case 0
  show ?case by simp
next
  case (Suc n)
  obtain c s' where v: "view_link_click env link s = (c, s')"
    by (cases "view_link_click env link s")
  show ?case
  proof (cases c)
    case Normal
    with v Suc.IH[of s'] view_link_click_frame[of env link s] show ?thesis by simp
  next
    case (Throw e)
    with v view_link_click_frame[of env link s] show ?thesis by simp
  qed
qed


lemma run_handlers_accepted:
  assumes "test_letters (parameterStringToHash env (substr href (indexOf href ''?'' + 1)) ''privlyApp'')"
  shows "fst (run_handlers n env (Some href) s) = Normal \<and>
         created_iframes (snd (run_handlers n env (Some href) s)) = created_iframes s + n"
proof (induction n arbitrary: s)
  case 0
  show ?case by simp
next
  case (Suc n)
  obtain c s' where v: "view_link_click env (Some href) s = (c, s')"
    by (cases "view_link_click env (Some href) s")
  with view_link_click_accepted(1,3)[OF assms, of s]
  have "c = Normal" "created_iframes s' = Suc (created_iframes s)" by simp_all
  with v Suc.IH[of s'] show ?case by simp
qed

lemma add_rows_frame:
  "messages (snd (add_rows env ps s)) = messages s \<and>
   privly_iframe (snd (add_rows env ps s)) = privly_iframe s \<and>
   view_link_handlers (snd (add_rows env ps s)) = view_link_handlers s \<and>
   created_iframes (snd (add_rows env ps s)) = created_iframes s"
  by (induction ps arbitrary: s) (auto split: option.splits)

lemma postCompleted_frame:
  "messages (snd (postCompleted env arg s)) = messages s \<and>
   privly_iframe (snd (postCompleted env arg s)) = privly_iframe s \<and>
   created_iframes (snd (postCompleted env arg s)) = created_iframes s"
proof (cases arg)
  case None
  then show ?thesis by (simp add: postCompleted_def)
next
  case (Some r)
  show ?thesis
  proof (cases "json r")
    case (JsonArray ps)
    obtain c s' where a: "add_rows env ps s = (c, s')" by (cases "add_rows env ps s")
    with add_rows_frame[of env ps s] Some JsonArray show ?thesis
      by (cases c) (simp_all add: postCompleted_def register_view_link_handler_def)
  qed (simp_all add: Some postCompleted_def register_view_link_handler_def)
qed


section \<open>The preview iframe\<close>










lemma previewed_container:
  "privly_iframe previewed_page =
   [new_iframe example_link ''privlyApp=Message&privlyDataURL=https://h/posts/1.json''
      (Some ''Message'')]"
  by (simp add: previewed_page_def example_link_def example_post_def example_defs
      postCompleted_def register_view_link_handler_def view_link_click_def Let_def)

lemma previewed_iframe:
  "getElementById ''ifrm0'' previewed_page =
   Some (new_iframe example_link ''privlyApp=Message&privlyDataURL=https://h/posts/1.json''
           (Some ''Message''))"
  by (simp add: previewed_container getElementById_def id_new_iframe)











text \<open>
  C9. While no element with the identifier \<open>ifrm0\<close> exists, a window message from the page's
  own origin makes \<open>resizeIframePostedMessage\<close> throw a \<open>TypeError\<close> (it dereferences
  \<open>null\<close>), and so does \<open>postUrl\<close>, both leaving the page as it was; once the element
  exists, \<open>postUrl\<close> returns, and so does \<open>resizeIframePostedMessage\<close> on string data.
\<close>

theorem no_preview_iframe_throws:
  assumes "origin e = location_origin env"
  shows "(getElementById ''ifrm0'' s = None \<longrightarrow>
            resizeIframePostedMessage env e s = (Throw TypeError, s) \<and>
            postUrl s = (Throw TypeError, s)) \<and>
         (getElementById ''ifrm0'' s \<noteq> None \<longrightarrow>
            fst (postUrl s) = Normal \<and>
            (data e = StringData d \<longrightarrow> fst (resizeIframePostedMessage env e s) = Normal))"
  using assms by (auto simp: resizeIframePostedMessage_def postUrl_def Let_def)

theorem no_preview_iframe_throws_witness:
  "origin \<lparr>origin = ''https://h'', data = StringData ''ignored,240''\<rparr> =
     location_origin example_env \<and>
   getElementById ''ifrm0'' example_page = None \<and>
   resizeIframePostedMessage example_env
     \<lparr>origin = ''https://h'', data = StringData ''ignored,240''\<rparr> example_page =
     (Throw TypeError, example_page) \<and>
   postUrl example_page = (Throw TypeError, example_page) \<and>
   getElementById ''ifrm0'' previewed_page \<noteq> None \<and>
   fst (postUrl previewed_page) = Normal \<and>
   fst (resizeIframePostedMessage example_env
     \<lparr>origin = ''https://h'', data = StringData ''ignored,240''\<rparr> previewed_page) = Normal"
proof -
  have o: "origin \<lparr>origin = ''https://h'', data = StringData ''ignored,240''\<rparr> =
           location_origin example_env"
    by (simp add: example_env_def)
  have n: "getElementById ''ifrm0'' example_page = None"
    by (simp add: getElementById_def example_page_def)
  have p: "getElementById ''ifrm0'' previewed_page \<noteq> None"
    by (simp add: previewed_iframe)
  show ?thesis
    using o n p
      no_preview_iframe_throws [OF o, of example_page "''ignored,240''"]
      no_preview_iframe_throws [OF o, of previewed_page "''ignored,240''"]
    by simp
qed

section \<open>The post list\<close>

text \<open>
  C7. When the post-list request that \<open>pendingPost\<close> issued is answered by a response whose
  \<open>json\<close> is the empty array, \<open>postCompleted\<close> returns, the table has the rows it had, and
  the message area holds the empty text that \<open>pendingPost\<close> wrote; this is so for the call
  itself and for the event that delivers the response.
\<close>

theorem empty_post_list_no_rows:
  "fst (postCompleted env (Some \<lparr>json = JsonArray []\<rparr>) (snd (pendingPost env s))) = Normal \<and>
   posts (snd (postCompleted env (Some \<lparr>json = JsonArray []\<rparr>) (snd (pendingPost env s)))) =
     posts s \<and>
   messages (snd (postCompleted env (Some \<lparr>json = JsonArray []\<rparr>) (snd (pendingPost env s)))) =
     Text '''' \<and>
   (get_requests s = [] \<longrightarrow>
      posts (run env [GetCompleted (Delivered \<lparr>json = JsonArray []\<rparr>)]
               (snd (pendingPost env s))) = posts s \<and>
      messages (run env [GetCompleted (Delivered \<lparr>json = JsonArray []\<rparr>)]
                  (snd (pendingPost env s))) = Text '''')"
  by (simp add: postCompleted_def pendingPost_def register_view_link_handler_def)

theorem empty_post_list_no_rows_witness:
  "get_requests example_page = [] \<and>
   posts (run example_env [GetCompleted (Delivered \<lparr>json = JsonArray []\<rparr>)]
            (snd (pendingPost example_env example_page))) = [] \<and>
   messages (run example_env [GetCompleted (Delivered \<lparr>json = JsonArray []\<rparr>)]
               (snd (pendingPost example_env example_page))) = Text ''''"
proof -
  have g: "get_requests example_page = []" and p: "posts example_page = []"
    by (simp_all add: example_page_def)
  show ?thesis
    using g p empty_post_list_no_rows [of example_env example_page] by simp
qed

text \<open>
  C3 (the code does not do this). \<open>pendingPost\<close> hands the network service one callback,
  \<open>postCompleted\<close>, and no statement of the script calls \<open>createError\<close> or hands it to a
  service. So whichever way the service completes the request, by calling the callback with
  some response or by calling nothing, the message area afterwards holds the empty text
  that \<open>pendingPost\<close> wrote, not the text of \<open>createError\<close>.
\<close>

theorem failed_fetch_leaves_messages_empty:
  "get_requests (snd (pendingPost env s)) =
     get_requests s @ [(contentServerDomain env @ ''/posts'', PostCompleted)] \<and>
   messages (snd (handle env (GetCompleted outcome)
                    (snd (pendingPost env (s\<lparr>get_requests := []\<rparr>))))) = Text '''' \<and>
   messages (snd (handle env (GetCompleted outcome)
                    (snd (pendingPost env (s\<lparr>get_requests := []\<rparr>))))) \<noteq>
     messages (snd (createError s))"
proof -
  have "messages (snd (handle env (GetCompleted outcome)
                    (snd (pendingPost env (s\<lparr>get_requests := []\<rparr>))))) = Text ''''"
    by (cases outcome) (simp_all add: pendingPost_def postCompleted_frame)
  then show ?thesis by (simp add: pendingPost_def createError_def)
qed

section \<open>The session check\<close>

lemma resize_frame:
  "messages (snd (resizeIframePostedMessage env e s)) = messages s \<and>
   posts (snd (resizeIframePostedMessage env e s)) = posts s \<and>
   session_check (snd (resizeIframePostedMessage env e s)) = session_check s \<and>
   get_requests (snd (resizeIframePostedMessage env e s)) = get_requests s"
  by (simp add: resizeIframePostedMessage_def update_element_def Let_def
      split: option.splits message_data.splits)

lemma postUrl_frame:
  "messages (snd (postUrl s)) = messages s \<and>
   posts (snd (postUrl s)) = posts s \<and>
   session_check (snd (postUrl s)) = session_check s \<and>
   get_requests (snd (postUrl s)) = get_requests s"
  by (simp add: postUrl_def split: option.splits)

text \<open>With no session check and no request in flight, no event but a page load changes the
  table or the message area, or puts anything in flight.\<close>

lemma handle_quiet:
  assumes "session_check s = None" and "get_requests s = []" and "ev \<noteq> DOMContentLoaded"
  shows "session_check (snd (handle env ev s)) = None \<and>
         get_requests (snd (handle env ev s)) = [] \<and>
         posts (snd (handle env ev s)) = posts s \<and>
         messages (snd (handle env ev s)) = messages s"
proof (cases ev)
  case DOMContentLoaded
  with assms(3) show ?thesis by simp
next
  case (SessionChecked outcome)
  then show ?thesis using assms(1,2) by simp
next
  case (GetCompleted outcome)
  then show ?thesis using assms(1,2) by simp
next
  case (ViewLinkClicked link)
  then show ?thesis using assms(1,2) run_handlers_frame[of "view_link_handlers s" env link s]
    by simp
next
  case (MessagePosted e)
  then show ?thesis using assms(1,2) resize_frame[of env e s] by simp
next
  case PostButtonClicked
  then show ?thesis using assms(1,2) postUrl_frame[of s] by simp
qed

lemma run_quiet:
  assumes "session_check s = None" and "get_requests s = []" and "DOMContentLoaded \<notin> set evs"
  shows "posts (run env evs s) = posts s \<and> messages (run env evs s) = messages s"
  using assms
proof (induction evs arbitrary: s)
  case Nil
  show ?case by simp
next
  case (Cons ev evs)
  have ne: "ev \<noteq> DOMContentLoaded" and rest: "DOMContentLoaded \<notin> set evs"
    using Cons.prems(3) by auto
  note h = handle_quiet[OF Cons.prems(1,2) ne, of env]
  from h Cons.IH[of "snd (handle env ev s)"] rest show ?case by simp
qed

lemma sign_in_prompt_text:
  "sign_in_prompt env =
   ''We were unable to sign you into your content server please <a href='' @ [CHR 0x27] @
   contentServerDomain env @ ''/users/sign_in'' @ [CHR 0x27] @ '' target='' @ [CHR 0x27] @
   ''_blank'' @ [CHR 0x27] @ ''>sign in</a> to <a href='' @ [CHR 0x27, CHR 0x27] @
   ''>continue</a>''"
  by (simp add: sign_in_prompt_def quote_def)

text \<open>
  C6. On a page with no request in flight when it loads, a session check that fails calls
  \<open>loginFailure\<close>, whichever of the two failure callbacks the network service uses. The
  message area then holds, as markup, the sign-in prompt: the sentence
  \<open>We were unable to sign you into your content server please sign in to continue\<close>, in
  which \<open>sign in\<close> is a link to \<open>/users/sign_in\<close> on the content server, opened in a new
  window, and \<open>continue\<close> is a link to the page itself. Through every later event of this
  page load the prompt stays and the post table keeps the rows it had before the script
  ran.
\<close>

theorem session_failure_shows_prompt:
  assumes "outcome = SessionFailedFirst \<or> outcome = SessionFailedSecond"
    and "get_requests s = []"
    and "DOMContentLoaded \<notin> set evs"
  shows "handle env (SessionChecked outcome) (snd (handle env DOMContentLoaded s)) =
           loginFailure env ((snd (handle env DOMContentLoaded s))\<lparr>session_check := None\<rparr>) \<and>
         messages (run env [DOMContentLoaded, SessionChecked outcome] s) =
           Html (''We were unable to sign you into your content server please <a href='' @
                 [CHR 0x27] @ contentServerDomain env @ ''/users/sign_in'' @ [CHR 0x27] @
                 '' target='' @ [CHR 0x27] @ ''_blank'' @ [CHR 0x27] @
                 ''>sign in</a> to <a href='' @ [CHR 0x27, CHR 0x27] @ ''>continue</a>'') \<and>
         messages (run env (DOMContentLoaded # SessionChecked outcome # evs) s) =
           messages (run env [DOMContentLoaded, SessionChecked outcome] s) \<and>
         posts (run env (DOMContentLoaded # SessionChecked outcome # evs) s) = posts s"
proof -
  define s1 where "s1 = snd (handle env DOMContentLoaded s)"
  define s2 where "s2 = snd (handle env (SessionChecked outcome) s1)"
  have c1: "session_check s1 = Some (PendingPost, LoginFailure, LoginFailure)"
    and g1: "get_requests s1 = []" and p1: "posts s1 = posts s"
    using assms(2) by (simp_all add: s1_def pendingLogin_def Let_def)
  have h: "handle env (SessionChecked outcome) s1 = loginFailure env (s1\<lparr>session_check := None\<rparr>)"
    using assms(1) c1 by auto
  then have s2: "session_check s2 = None" "get_requests s2 = []" "posts s2 = posts s"
    "messages s2 = Html (sign_in_prompt env)"
    using g1 p1 by (simp_all add: s2_def loginFailure_def)
  have r: "run env (DOMContentLoaded # SessionChecked outcome # evs) s = run env evs s2"
    by (simp add: s1_def s2_def)
  have r0: "run env [DOMContentLoaded, SessionChecked outcome] s = s2"
    by (simp add: s1_def s2_def)
  from run_quiet[OF s2(1,2) assms(3), of env] s2(3,4) h
  show ?thesis
    unfolding r r0 s1_def [symmetric] by (simp only: sign_in_prompt_text)
qed

theorem session_failure_shows_prompt_witness:
  "(SessionFailedSecond = SessionFailedFirst \<or> SessionFailedSecond = SessionFailedSecond) \<and>
   get_requests example_page = [] \<and>
   DOMContentLoaded \<notin> set [SessionChecked SessionOk,
      GetCompleted (Delivered \<lparr>json = JsonArray [example_post]\<rparr>),
      ViewLinkClicked (Some example_link)] \<and>
   messages (run example_env [DOMContentLoaded, SessionChecked SessionFailedSecond] example_page) =
     Html (''We were unable to sign you into your content server please <a href='' @
           [CHR 0x27] @ ''https://h/users/sign_in'' @ [CHR 0x27] @ '' target='' @ [CHR 0x27] @
           ''_blank'' @ [CHR 0x27] @ ''>sign in</a> to <a href='' @ [CHR 0x27, CHR 0x27] @
           ''>continue</a>'') \<and>
   messages (run example_env
      (DOMContentLoaded # SessionChecked SessionFailedSecond #
       [SessionChecked SessionOk,
        GetCompleted (Delivered \<lparr>json = JsonArray [example_post]\<rparr>),
        ViewLinkClicked (Some example_link)]) example_page) =
     messages (run example_env [DOMContentLoaded, SessionChecked SessionFailedSecond]
        example_page) \<and>
   posts (run example_env
      (DOMContentLoaded # SessionChecked SessionFailedSecond #
       [SessionChecked SessionOk,
        GetCompleted (Delivered \<lparr>json = JsonArray [example_post]\<rparr>),
        ViewLinkClicked (Some example_link)]) example_page) = []"
proof -
  have o: "SessionFailedSecond = SessionFailedFirst \<or> SessionFailedSecond = SessionFailedSecond"
    by simp
  have g: "get_requests example_page = []" and p: "posts example_page = []"
    by (simp_all add: example_page_def)
  have d: "DOMContentLoaded \<notin> set [SessionChecked SessionOk,
      GetCompleted (Delivered \<lparr>json = JsonArray [example_post]\<rparr>),
      ViewLinkClicked (Some example_link)]"
    by simp
  have c: "contentServerDomain example_env = ''https://h''" by (simp add: example_env_def)
  from session_failure_shows_prompt [OF o g d, of example_env] o g d p c
  show ?thesis by (simp only:) simp
qed

section \<open>The click handlers that accumulate\<close>

lemma add_rows_returns:
  "(fst (add_rows env ps s) = Normal) = list_all (decodes env) ps"
  by (induction ps arbitrary: s) (auto simp: decodes_def split: option.splits)

lemma postCompleted_returns: "(fst (postCompleted env arg s) = Normal) = completes env arg"
proof (cases arg)
  case None
  then show ?thesis by (simp add: postCompleted_def completes_def)
next
  case (Some r)
  show ?thesis
  proof (cases "json r")
    case (JsonArray ps)
    obtain c s' where a: "add_rows env ps s = (c, s')" by (cases "add_rows env ps s")
    with add_rows_returns[of env ps s] Some JsonArray show ?thesis
      by (cases c) (simp_all add: postCompleted_def completes_def)
  qed (simp_all add: Some postCompleted_def completes_def)
qed

lemma postCompleted_handlers:
  "view_link_handlers (snd (postCompleted env arg s)) =
   (if fst (postCompleted env arg s) = Normal then Suc (view_link_handlers s)
    else view_link_handlers s)"
proof (cases arg)
  case None
  then show ?thesis by (simp add: postCompleted_def)
next
  case (Some r)
  show ?thesis
  proof (cases "json r")
    case (JsonArray ps)
    obtain c s' where a: "add_rows env ps s = (c, s')" by (cases "add_rows env ps s")
    with add_rows_frame[of env ps s] Some JsonArray show ?thesis
      by (cases c) (simp_all add: postCompleted_def register_view_link_handler_def)
  qed (simp_all add: Some postCompleted_def register_view_link_handler_def)
qed

lemma fold_postCompleted:
  "view_link_handlers (fold (\<lambda>a t. snd (postCompleted env a t)) args s) =
     view_link_handlers s + length (filter (completes env) args) \<and>
   created_iframes (fold (\<lambda>a t. snd (postCompleted env a t)) args s) = created_iframes s"
proof (induction args arbitrary: s)
  case Nil
  show ?case by simp
next
  case (Cons a args)
  from postCompleted_handlers[of env a s] postCompleted_returns[of env a s]
    postCompleted_frame[of env a s] Cons.IH[of "snd (postCompleted env a s)"]
  show ?case by simp
qed

text \<open>
  C10 (as amended). An invocation of \<open>postCompleted\<close> returns exactly when its argument is
  a response whose body is an array of post records that each decode to a
  \<open>privlyDataURL\<close>, or an object without a length. Every invocation that returns registers
  one more click handler for view links on the body, none being replaced, and one that
  throws registers none: after a sequence of invocations the number of handlers has grown
  by the number of those that returned, and one click on a view link whose \<open>privlyApp\<close>
  passes the test then runs the embedding once per registered handler, constructing that
  many iframes.
\<close>

theorem view_link_handlers_accumulate:
  "view_link_handlers (snd (postCompleted env arg s)) =
     (if fst (postCompleted env arg s) = Normal then Suc (view_link_handlers s)
      else view_link_handlers s) \<and>
   (fst (postCompleted env arg s) = Normal) = completes env arg \<and>
   view_link_handlers (fold (\<lambda>a t. snd (postCompleted env a t)) args s) =
     view_link_handlers s + length (filter (completes env) args) \<and>
   (test_letters (parameterStringToHash env (substr href (indexOf href ''?'' + 1)) ''privlyApp'')
      \<longrightarrow> created_iframes (snd (handle env (ViewLinkClicked (Some href))
                (fold (\<lambda>a t. snd (postCompleted env a t)) args s))) =
          created_iframes s + (view_link_handlers s + length (filter (completes env) args)))"
proof (intro conjI impI)
  show "view_link_handlers (snd (postCompleted env arg s)) =
     (if fst (postCompleted env arg s) = Normal then Suc (view_link_handlers s)
      else view_link_handlers s)"
    by (rule postCompleted_handlers)
  show "(fst (postCompleted env arg s) = Normal) = completes env arg"
    by (rule postCompleted_returns)
  show "view_link_handlers (fold (\<lambda>a t. snd (postCompleted env a t)) args s) =
     view_link_handlers s + length (filter (completes env) args)"
    using fold_postCompleted[of env args s] by simp
next
  assume t: "test_letters
               (parameterStringToHash env (substr href (indexOf href ''?'' + 1)) ''privlyApp'')"
  show "created_iframes (snd (handle env (ViewLinkClicked (Some href))
                (fold (\<lambda>a t. snd (postCompleted env a t)) args s))) =
          created_iframes s + (view_link_handlers s + length (filter (completes env) args))"
    using fold_postCompleted[of env args s]
      run_handlers_accepted[OF t,
        of "view_link_handlers (fold (\<lambda>a t. snd (postCompleted env a t)) args s)"
           "fold (\<lambda>a t. snd (postCompleted env a t)) args s"]
    by simp
qed

theorem view_link_handlers_accumulate_witness:
  "test_letters (parameterStringToHash example_env
      (substr example_link (indexOf example_link ''?'' + 1)) ''privlyApp'') \<and>
   filter (completes example_env)
     [Some \<lparr>json = JsonArray [example_post]\<rparr>, Some \<lparr>json = JsonNull\<rparr>,
      Some \<lparr>json = JsonObject\<rparr>, None, Some \<lparr>json = JsonArray [example_post, example_post]\<rparr>] =
     [Some \<lparr>json = JsonArray [example_post]\<rparr>, Some \<lparr>json = JsonObject\<rparr>,
      Some \<lparr>json = JsonArray [example_post, example_post]\<rparr>] \<and>
   view_link_handlers (fold (\<lambda>a t. snd (postCompleted example_env a t))
     [Some \<lparr>json = JsonArray [example_post]\<rparr>, Some \<lparr>json = JsonNull\<rparr>,
      Some \<lparr>json = JsonObject\<rparr>, None, Some \<lparr>json = JsonArray [example_post, example_post]\<rparr>]
     example_page) = 3 \<and>
   created_iframes (snd (handle example_env (ViewLinkClicked (Some example_link))
     (fold (\<lambda>a t. snd (postCompleted example_env a t))
        [Some \<lparr>json = JsonArray [example_post]\<rparr>, Some \<lparr>json = JsonNull\<rparr>,
         Some \<lparr>json = JsonObject\<rparr>, None,
         Some \<lparr>json = JsonArray [example_post, example_post]\<rparr>]
        example_page))) = 3"
proof -
  have t: "test_letters (parameterStringToHash example_env
      (substr example_link (indexOf example_link ''?'' + 1)) ''privlyApp'')"
    by (simp add: example_link_def example_defs)
  have f: "filter (completes example_env)
     [Some \<lparr>json = JsonArray [example_post]\<rparr>, Some \<lparr>json = JsonNull\<rparr>,
      Some \<lparr>json = JsonObject\<rparr>, None, Some \<lparr>json = JsonArray [example_post, example_post]\<rparr>] =
     [Some \<lparr>json = JsonArray [example_post]\<rparr>, Some \<lparr>json = JsonObject\<rparr>,
      Some \<lparr>json = JsonArray [example_post, example_post]\<rparr>]"
    by (simp add: completes_def decodes_def example_post_def example_defs)
  have z: "view_link_handlers example_page = 0" "created_iframes example_page = 0"
    by (simp_all add: example_page_def)
  from view_link_handlers_accumulate [of example_env _ example_page
      "[Some \<lparr>json = JsonArray [example_post]\<rparr>, Some \<lparr>json = JsonNull\<rparr>,
        Some \<lparr>json = JsonObject\<rparr>, None, Some \<lparr>json = JsonArray [example_post, example_post]\<rparr>]"
      example_link] t f z
  show ?thesis by (simp only:) simp
qed

text \<open>The claim as it was written has every invocation register a handler. An invocation
  throws before it reaches the registration when the body of the response is \<open>null\<close>, and
  when a record decodes to no \<open>privlyDataURL\<close> (here the second of two, after the row of
  the first was added): no handler is registered.\<close>

theorem postCompleted_throws_counterexample:
  "postCompleted example_env (Some \<lparr>json = JsonNull\<rparr>) example_page =
     (Throw TypeError, example_page) \<and>
   view_link_handlers example_page = 0 \<and>
   parameterStringToHash example_env ''https://h/apps/Message/show?privlyApp=Message''
     ''privlyDataURL'' = None \<and>
   fst (postCompleted example_env
     (Some \<lparr>json = JsonArray
        [example_post,
         example_post\<lparr>privly_URL := ''https://h/apps/Message/show?privlyApp=Message''\<rparr>]\<rparr>)
     example_page) = Throw TypeError \<and>
   view_link_handlers (snd (postCompleted example_env
     (Some \<lparr>json = JsonArray
        [example_post,
         example_post\<lparr>privly_URL := ''https://h/apps/Message/show?privlyApp=Message''\<rparr>]\<rparr>)
     example_page)) = 0 \<and>
   length (posts (snd (postCompleted example_env
     (Some \<lparr>json = JsonArray
        [example_post,
         example_post\<lparr>privly_URL := ''https://h/apps/Message/show?privlyApp=Message''\<rparr>]\<rparr>)
     example_page))) = 1"
  by (simp add: postCompleted_def example_post_def example_defs)

end
